theory Spec2Isabelle
  imports Complex_Main "HOL-Library.Sublist" "HOL-Library.Multiset"
begin

section \<open>Python values used by the price tracker\<close>

text \<open>
  The tracker is written in Python. Strings are modelled as \<open>string\<close> (lists of
  one-byte characters, so the model covers ASCII text; \<open>str.lower\<close> and the regular
  expression class \<open>\d\<close> are modelled on ASCII). Python floats are modelled as exact
  reals: a price is the decimal number its text denotes, comparisons are the exact ones
  and \<open>round\<close> rounds the exact value, ties to even. The rounding error of binary
  floating point is outside the model.
\<close>

datatype py_error = ValueError | ZeroDivisionError | RaisedException string

definition is_digit :: "char \<Rightarrow> bool" where
  "is_digit c = (c \<in> set ''0123456789'')"

definition digit_val :: "char \<Rightarrow> nat" where
  "digit_val c = of_char c - 48"

definition digits_value :: "string \<Rightarrow> nat" where
  "digits_value ds = foldl (\<lambda>a c. 10 * a + digit_val c) 0 ds"

definition lower_char :: "char \<Rightarrow> char" where
  "lower_char c =
     (case map_of (zip ''ABCDEFGHIJKLMNOPQRSTUVWXYZ'' ''abcdefghijklmnopqrstuvwxyz'') c of
        Some l \<Rightarrow> l
      | None \<Rightarrow> c)"

text \<open>\<open>s.lower()\<close>\<close>

definition lower :: "string \<Rightarrow> string" where
  "lower s = map lower_char s"

text \<open>\<open>s.replace(c, '')\<close> for a one-character \<open>c\<close>\<close>

definition remove_char :: "char \<Rightarrow> string \<Rightarrow> string" where
  "remove_char c s = filter (\<lambda>x. x \<noteq> c) s"

text \<open>\<open>w in s\<close> on strings: \<open>w\<close> occurs in \<open>s\<close> as a contiguous piece.\<close>

fun py_in :: "string \<Rightarrow> string \<Rightarrow> bool" where
  "py_in w [] = (w = [])"
| "py_in w (c # cs) = (prefix w (c # cs) \<or> py_in w cs)"

text \<open>
  \<open>float(s)\<close> for the plain decimal forms \<open>12\<close>, \<open>12.\<close>, \<open>12.5\<close> and \<open>.5\<close>. Python
  accepts more (signs, exponents, blanks); for every other string the model answers
  \<open>ValueError\<close>, which can only add raises to the model.
\<close>

definition fraction_value :: "string \<Rightarrow> real" where
  "fraction_value fs = real (digits_value fs) / 10 ^ length fs"

definition py_float :: "string \<Rightarrow> py_error + real" where
  "py_float s =
     (let ip = takeWhile is_digit s; r = dropWhile is_digit s in
      case r of
        [] \<Rightarrow> if ip = [] then Inl ValueError else Inr (real (digits_value ip))
      | c # fp \<Rightarrow>
          if c = CHR ''.'' \<and> list_all is_digit fp \<and> (ip \<noteq> [] \<or> fp \<noteq> [])
          then Inr (real (digits_value ip) + fraction_value fp)
          else Inl ValueError)"

text \<open>
  \<open>round(x, n)\<close>: the nearest multiple of \<open>10 ^ -n\<close>, a tie going to the even one.
\<close>

definition round_half_even :: "real \<Rightarrow> int" where
  "round_half_even x =
     (let f = \<lfloor>x\<rfloor>; d = x - of_int f in
      if d < 1 / 2 then f
      else if 1 / 2 < d then f + 1
      else if even f then f else f + 1)"

definition py_round :: "real \<Rightarrow> nat \<Rightarrow> real" where
  "py_round x n = of_int (round_half_even (x * 10 ^ n)) / 10 ^ n"

section \<open>BaseScraper (multi\_platform\_scraper.py)\<close>

subsection \<open>\<open>_categorize_milo_product\<close>\<close>

definition uht_words :: "string list" where
  "uht_words = [''uht'', ''packet'', ''200ml'', ''tetra'']"

definition powder_words :: "string list" where
  "powder_words = [''powder'', ''tin'', ''refill'', ''kg'', ''sachet'', ''gao'']"

definition bottle_words :: "string list" where
  "bottle_words = [''bottle'', ''1l'', ''1.5l'', ''pet'', ''drink'']"

text \<open>\<open>any(word in name_lower for word in words)\<close>\<close>

definition any_word_in :: "string list \<Rightarrow> string \<Rightarrow> bool" where
  "any_word_in ws s = list_ex (\<lambda>word. py_in word s) ws"

definition categorize_milo_product :: "string \<Rightarrow> string" where
  "categorize_milo_product name =
     (let name_lower = lower name in
      if any_word_in uht_words name_lower then ''uht''
      else if any_word_in powder_words name_lower then ''powder''
      else if any_word_in bottle_words name_lower then ''bottle''
      else ''other'')"

subsection \<open>\<open>_extract_price\<close>\<close>

text \<open>
  \<open>re.search(r'(\d+\.?\d*)', s)\<close>: the leftmost match. At a position that holds a digit
  the pattern takes every digit that follows, then a dot when one follows, then every
  digit after the dot; each part is greedy and the later parts may be empty, so no
  backtracking takes place. At a position that holds no digit it does not match.
\<close>

definition re_match_at :: "string \<Rightarrow> string option" where
  "re_match_at s =
     (let ds = takeWhile is_digit s; r = dropWhile is_digit s in
      if ds = [] then None
      else case r of
             [] \<Rightarrow> Some ds
           | c # r' \<Rightarrow>
               if c = CHR ''.'' then Some (ds @ c # takeWhile is_digit r') else Some ds)"

fun re_search :: "string \<Rightarrow> string option" where
  "re_search [] = None"
| "re_search (c # cs) =
     (case re_match_at (c # cs) of
        Some m \<Rightarrow> Some m
      | None \<Rightarrow> re_search cs)"

text \<open>
  The text is \<open>None\<close> or a string; \<open>not text\<close> holds for \<open>None\<close> and for the empty
  string.
\<close>

definition strip_price_text :: "string \<Rightarrow> string" where
  "strip_price_text t = remove_char (CHR ''S'') (remove_char (CHR ''$'') (remove_char (CHR '','') t))"

definition extract_price :: "string option \<Rightarrow> py_error + real" where
  "extract_price text =
     (case text of
        None \<Rightarrow> Inr 0
      | Some t \<Rightarrow>
          if t = [] then Inr 0
          else
            (let price_text = strip_price_text t in
             case re_search price_text of
               Some price_match \<Rightarrow> py_float price_match
             | None \<Rightarrow> Inr 0))"

section \<open>Listings and the consolidated products\<close>

text \<open>
  A listing is the dictionary a scraper appends to \<open>products\<close>. The keys
  \<open>flash_sale_type\<close>, \<open>flash_sale_end\<close> and \<open>discount_percent\<close> are written by the
  Shopee and Lazada scrapers only: \<open>None\<close> stands for a key the dictionary does not
  have. For \<open>flash_sale_end\<close> it also stands for the value \<open>None\<close>, which every reader
  of the key treats like the missing key.
\<close>

record listing =
  name :: string
  type :: string
  price :: real
  original_price :: real
  flash_sale :: bool
  flash_sale_type :: "string option"
  flash_sale_end :: "string option"
  discount_percent :: "real option"
  url :: string
  platform :: string
  scraped_at :: string

text \<open>An entry of \<open>prices\<close> in a consolidated product (\<open>price_info\<close>).\<close>

record price_info =
  offer_platform :: string
  offer_price :: real
  originalPrice :: real
  flashSale :: bool
  offer_url :: string
  flashSaleType :: "string option"
  flashSaleEnd :: "string option"
  discountPercent :: "real option"

text \<open>A consolidated product: the keys \<open>id\<close>, \<open>name\<close>, \<open>type\<close> and \<open>prices\<close>.\<close>

record product =
  product_id :: int
  product_name :: string
  product_type :: string
  prices :: "price_info list"

text \<open>
  A Python dictionary keeps its keys in insertion order: an association list with
  distinct keys. \<open>d[k] = v\<close> is \<open>dict_set\<close>: it replaces the value of a key that is
  there and appends a new key at the end.
\<close>

type_synonym ('k, 'v) dict = "('k \<times> 'v) list"

fun dict_set :: "'k \<Rightarrow> 'v \<Rightarrow> ('k, 'v) dict \<Rightarrow> ('k, 'v) dict" where
  "dict_set k v [] = [(k, v)]"
| "dict_set k v ((k', v') # d) =
     (if k' = k then (k, v) # d else (k', v') # dict_set k v d)"

text \<open>\<open>d[k]['prices'].append(x)\<close>: the value under a key is changed in place.\<close>

fun dict_modify :: "'k \<Rightarrow> ('v \<Rightarrow> 'v) \<Rightarrow> ('k, 'v) dict \<Rightarrow> ('k, 'v) dict" where
  "dict_modify k f [] = []"
| "dict_modify k f ((k', v') # d) =
     (if k' = k then (k', f v') # d else (k', v') # dict_modify k f d)"

section \<open>The cache (complete\_backend.py)\<close>

text \<open>
  A \<open>datetime\<close> is modelled as its number of microseconds since a fixed instant, a
  \<open>timedelta\<close> as a number of microseconds. Python normalises a \<open>timedelta\<close> into days,
  seconds (0 to 86399) and microseconds; its attribute \<open>seconds\<close> is that seconds part.
\<close>

definition timedelta_seconds :: "int \<Rightarrow> int" where
  "timedelta_seconds d = (d div 1000000) mod 86400"

record cache =
  products :: "product list"
  last_updated :: "int option"
  by_platform :: "(string, listing list) dict"

definition CACHE_DURATION :: int where
  "CACHE_DURATION = 3600"

text \<open>\<open>now\<close> is the value of \<open>datetime.now()\<close> at the call.\<close>

definition get_cached_data :: "int \<Rightarrow> cache \<Rightarrow> product list option" where
  "get_cached_data now c =
     (case last_updated c of
        None \<Rightarrow> None
      | Some t \<Rightarrow>
          (let elapsed = timedelta_seconds (now - t) in
           if elapsed < CACHE_DURATION then Some (products c) else None))"

definition update_cache :: "int \<Rightarrow> product list \<Rightarrow> cache \<Rightarrow> cache" where
  "update_cache now ps c = c\<lparr>products := ps, last_updated := Some now\<rparr>"

section \<open>\<open>consolidate_products\<close>\<close>

definition product_key :: "listing \<Rightarrow> string" where
  "product_key p = remove_char (CHR '' '') (lower (take 20 (name p)))"

definition make_price_info :: "listing \<Rightarrow> price_info" where
  "make_price_info p =
     \<lparr>offer_platform = platform p,
      offer_price = price p,
      originalPrice = original_price p,
      flashSale = flash_sale p,
      offer_url = url p,
      flashSaleType = flash_sale_type p,
      flashSaleEnd = (case flash_sale_end p of
                        None \<Rightarrow> None
                      | Some e \<Rightarrow> if e \<noteq> [] then Some e else None),
      discountPercent = discount_percent p\<rparr>"

text \<open>
  The loop over \<open>all_products\<close>, with \<open>product_id\<close> and \<open>seen_names\<close> as its state.
\<close>

fun consolidate_loop ::
  "listing list \<Rightarrow> int \<Rightarrow> (string, product) dict \<Rightarrow> (string, product) dict" where
  "consolidate_loop [] pid seen_names = seen_names"
| "consolidate_loop (p # ps) pid seen_names =
     (let key = product_key p;
          seen1 = (if map_of seen_names key = None
                   then dict_set key
                          \<lparr>product_id = pid, product_name = name p, product_type = type p,
                           prices = []\<rparr> seen_names
                   else seen_names);
          pid1 = (if map_of seen_names key = None then pid + 1 else pid);
          seen2 = dict_modify key (\<lambda>e. e\<lparr>prices := prices e @ [make_price_info p]\<rparr>) seen1
      in consolidate_loop ps pid1 seen2)"

definition consolidate_products :: "(string, listing list) dict \<Rightarrow> product list" where
  "consolidate_products products_by_platform =
     (let all_products = concat (map snd products_by_platform) in
      map snd (consolidate_loop all_products 1 []))"



section \<open>The scrape cycle\<close>

text \<open>
  What \<open>scraper.scrape(...)\<close> does for each platform in this cycle is a parameter:
  \<open>Inr products\<close> when it returns, \<open>Inl e\<close> when it raises an exception \<open>e\<close> (a
  subclass of \<open>Exception\<close>, which is what \<open>except Exception\<close> catches).
\<close>

type_synonym scrapers = "string \<Rightarrow> py_error + listing list"

definition platform_names :: "string list" where
  "platform_names = [''fairprice'', ''shopee'', ''lazada'', ''shengsiong'', ''giant'']"

text \<open>\<open>scrape_all_platforms\<close> of multi\_platform\_scraper.py: the loop and the function.\<close>

fun mps_scrape_loop ::
  "scrapers \<Rightarrow> string list \<Rightarrow> (string, listing list) dict \<Rightarrow> (string, listing list) dict" where
  "mps_scrape_loop scrape [] all_products = all_products"
| "mps_scrape_loop scrape (pf # pfs) all_products =
     (case scrape pf of
        Inr ps \<Rightarrow> mps_scrape_loop scrape pfs (dict_set pf ps all_products)
      | Inl e \<Rightarrow> mps_scrape_loop scrape pfs (dict_set pf [] all_products))"

definition mps_scrape_all_platforms :: "scrapers \<Rightarrow> (string, listing list) dict" where
  "mps_scrape_all_platforms scrape = mps_scrape_loop scrape platform_names []"

text \<open>
  \<open>scrape_all_platforms\<close> of complete\_backend.py. The state of its loop is
  \<open>all_products_by_platform\<close> and \<open>cache['by_platform']\<close>; \<open>now\<close> is the clock when
  \<open>update_cache\<close> runs.
\<close>

fun scrape_loop ::
  "scrapers \<Rightarrow> string list \<Rightarrow> (string, listing list) dict \<times> (string, listing list) dict \<Rightarrow>
   (string, listing list) dict \<times> (string, listing list) dict" where
  "scrape_loop scrape [] (all_products, byp) = (all_products, byp)"
| "scrape_loop scrape (pf # pfs) (all_products, byp) =
     (case scrape pf of
        Inr ps \<Rightarrow> scrape_loop scrape pfs (dict_set pf ps all_products, dict_set pf ps byp)
      | Inl e \<Rightarrow> scrape_loop scrape pfs (dict_set pf [] all_products, byp))"

definition scrape_all_platforms :: "scrapers \<Rightarrow> int \<Rightarrow> cache \<Rightarrow> product list \<times> cache" where
  "scrape_all_platforms scrape now c =
     (let (all_products_by_platform, byp) = scrape_loop scrape platform_names ([], by_platform c);
          consolidated = consolidate_products all_products_by_platform
      in (consolidated, update_cache now consolidated (c\<lparr>by_platform := byp\<rparr>)))"

section \<open>The endpoints\<close>

record deal =
  deal_product :: string
  best_platform :: string
  best_price :: real
  worst_platform :: string
  worst_price :: real
  savings :: real
  savings_percent :: real

record best_deals_response =
  best_deals :: "deal list"
  total_potential_savings :: real

text \<open>
  The loop of \<open>get_best_deals\<close> over the products. \<open>sorted\<close> is stable, as \<open>sort_key\<close>
  is. The division raises \<open>ZeroDivisionError\<close> when the dearest price is 0.
\<close>

fun best_deals_loop :: "product list \<Rightarrow> deal list \<Rightarrow> py_error + deal list" where
  "best_deals_loop [] acc = Inr acc"
| "best_deals_loop (p # ps) acc =
     (if 1 < length (prices p) then
        (let sorted_prices = sort_key offer_price (prices p);
             best = hd sorted_prices;
             worst = last sorted_prices;
             sv = offer_price worst - offer_price best
         in if 0 < sv then
              (if offer_price worst = 0 then Inl ZeroDivisionError
               else best_deals_loop ps
                      (acc @ [\<lparr>deal_product = product_name p,
                                best_platform = offer_platform best,
                                best_price = offer_price best,
                                worst_platform = offer_platform worst,
                                worst_price = offer_price worst,
                                savings = py_round sv 2,
                                savings_percent = py_round ((sv / offer_price worst) * 100) 1\<rparr>]))
            else best_deals_loop ps acc)
      else best_deals_loop ps acc)"

text \<open>
  \<open>xs.sort(key=k, reverse=True)\<close>: descending, and elements with equal keys keep
  their order.
\<close>

definition sort_reverse :: "('a \<Rightarrow> real) \<Rightarrow> 'a list \<Rightarrow> 'a list" where
  "sort_reverse k xs = rev (sort_key k (rev xs))"

definition best_deals_of :: "product list \<Rightarrow> py_error + best_deals_response" where
  "best_deals_of cached_data =
     (case best_deals_loop cached_data [] of
        Inl e \<Rightarrow> Inl e
      | Inr ds \<Rightarrow>
          (let sorted_deals = sort_reverse savings ds in
           Inr \<lparr>best_deals = take 10 sorted_deals,
                total_potential_savings = py_round (sum_list (map savings sorted_deals)) 2\<rparr>))"

text \<open>
  \<open>if not cached_data\<close> holds for \<open>None\<close> and for the empty list. The endpoints answer
  with their response and leave the cache as the second component.
\<close>

definition falsy :: "product list option \<Rightarrow> bool" where
  "falsy d = (case d of None \<Rightarrow> True | Some ps \<Rightarrow> ps = [])"

definition get_best_deals ::
  "scrapers \<Rightarrow> int \<Rightarrow> cache \<Rightarrow> (py_error + best_deals_response) \<times> cache" where
  "get_best_deals scrape now c =
     (let cached_data = get_cached_data now c in
      if falsy cached_data then
        (let (scraped, c') = scrape_all_platforms scrape now c in (best_deals_of scraped, c'))
      else (best_deals_of (the cached_data), c))"

record products_response =
  response_products :: "product list"
  lastUpdated :: int
  source :: string
  response_platforms :: "string list"

definition get_products :: "scrapers \<Rightarrow> int \<Rightarrow> cache \<Rightarrow> products_response \<times> cache" where
  "get_products scrape now c =
     (let cached_data = get_cached_data now c in
      if \<not> falsy cached_data then
        (\<lparr>response_products = the cached_data,
          lastUpdated = the (last_updated c),
          source = ''cache'',
          response_platforms = map fst (by_platform c)\<rparr>, c)
      else
        (let (scraped, c') = scrape_all_platforms scrape now c in
         (\<lparr>response_products = scraped,
           lastUpdated = now,
           source = ''fresh_scrape'',
           response_platforms = map fst (by_platform c')\<rparr>, c')))"

record flash_sale_entry =
  fs_product :: string
  fs_type :: string
  fs_platform :: string
  fs_price :: real
  fs_original_price :: real
  fs_discount_percent :: real
  fs_flash_sale_type :: string
  fs_flash_sale_end :: "string option"
  fs_url :: string
  all_platforms :: "(string \<times> real \<times> bool \<times> string option) list"

definition flash_sale_of :: "product \<Rightarrow> flash_sale_entry option" where
  "flash_sale_of p =
     (let flash_sale_prices = filter flashSale (prices p) in
      if flash_sale_prices = [] then None
      else
        (let best_flash_sale = hd (sort_key offer_price flash_sale_prices) in
         Some \<lparr>fs_product = product_name p,
               fs_type = product_type p,
               fs_platform = offer_platform best_flash_sale,
               fs_price = offer_price best_flash_sale,
               fs_original_price = originalPrice best_flash_sale,
               fs_discount_percent = (case discountPercent best_flash_sale of
                                        Some d \<Rightarrow> d
                                      | None \<Rightarrow> 0),
               fs_flash_sale_type = (case flashSaleType best_flash_sale of
                                       Some t \<Rightarrow> t
                                     | None \<Rightarrow> ''flash_sale''),
               fs_flash_sale_end = flashSaleEnd best_flash_sale,
               fs_url = offer_url best_flash_sale,
               all_platforms =
                 map (\<lambda>q. (offer_platform q, offer_price q, flashSale q, flashSaleType q))
                   (prices p)\<rparr>))"

definition flash_sales_of :: "product list \<Rightarrow> flash_sale_entry list" where
  "flash_sales_of cached_data =
     sort_reverse fs_discount_percent (List.map_filter flash_sale_of cached_data)"

definition get_flash_sales :: "scrapers \<Rightarrow> int \<Rightarrow> cache \<Rightarrow> flash_sale_entry list \<times> cache" where
  "get_flash_sales scrape now c =
     (let cached_data = get_cached_data now c in
      if falsy cached_data then
        (let (scraped, c') = scrape_all_platforms scrape now c in (flash_sales_of scraped, c'))
      else (flash_sales_of (the cached_data), c))"

section \<open>Auxiliary notions for the consolidation proof\<close>



section \<open>The best deals in the words of the specification\<close>





section \<open>The rendered page\<close>

text \<open>
  The browser and BeautifulSoup are outside the code under study; what they answer is
  the input of the model. An element answers \<open>get_text()\<close>, \<open>get_text(strip=True)\<close>
  and its attributes. A candidate container answers \<open>select(css)\<close> for every selector,
  \<open>get_text()\<close> and \<open>find(text=re.compile(r'milo', re.IGNORECASE))\<close>, the first text
  node that mentions milo. \<open>select_one\<close> is the first element of \<open>select\<close>. A tag is
  truthy, so \<open>a or b\<close> on tags takes the first that is not \<open>None\<close>, and on result
  lists the first that is not empty.
\<close>

record element =
  get_text :: string
  get_text_strip :: string
  attrs :: "(string \<times> string) list"

record container =
  select :: "string \<Rightarrow> element list"
  container_text :: string
  find_milo :: "string option"

datatype page =
  LaunchError py_error
  | GotoError py_error
  | Rendered "string \<Rightarrow> container list"

text \<open>
  \<open>str(price)\<close> and \<open>datetime.now().isoformat()\<close> come from the Python runtime: the
  model takes them as parameters and proves its theorems for every such function.
\<close>

record runtime =
  str_float :: "real \<Rightarrow> string"
  now_isoformat :: string

definition select_one :: "container \<Rightarrow> string \<Rightarrow> element option" where
  "select_one c css = (case select c css of [] \<Rightarrow> None | e # es \<Rightarrow> Some e)"

definition or_else :: "'a option \<Rightarrow> 'a option \<Rightarrow> 'a option" where
  "or_else a b = (case a of Some x \<Rightarrow> Some x | None \<Rightarrow> b)"

definition or_list :: "'a list \<Rightarrow> 'a list \<Rightarrow> 'a list" where
  "or_list a b = (if a \<noteq> [] then a else b)"

text \<open>\<open>select_one(s1) or select_one(s2) or ...\<close>\<close>

fun first_match :: "container \<Rightarrow> string list \<Rightarrow> element option" where
  "first_match c [] = None"
| "first_match c (css # others) = or_else (select_one c css) (first_match c others)"

text \<open>\<open>xs[:n]\<close>: a negative \<open>n\<close> counts from the end.\<close>

definition slice_to :: "int \<Rightarrow> 'a list \<Rightarrow> 'a list" where
  "slice_to n xs = (if 0 \<le> n then take (nat n) xs else take (length xs - nat (- n)) xs)"

text \<open>The URL of a product, from the link element of its container.\<close>

definition product_url_of :: "string \<Rightarrow> element option \<Rightarrow> string" where
  "product_url_of base_url link_elem =
     (case link_elem of
        None \<Rightarrow> ''''
      | Some a \<Rightarrow>
          (case map_of (attrs a) ''href'' of
             None \<Rightarrow> ''''
           | Some href \<Rightarrow>
               if href = [] then ''''
               else if prefix ''http'' href then href
               else base_url @ href))"

text \<open>
  The loop \<open>for container in containers[:max_products]\<close> of every scraper: a container
  without a name is skipped (\<open>continue\<close>, or \<open>None\<close> from the extraction), an
  exception in the body is caught and the loop goes on, a product is appended to the
  list \<open>products\<close> (here \<open>found\<close>).
\<close>

fun scrape_containers ::
  "(container \<Rightarrow> py_error + listing option) \<Rightarrow> container list \<Rightarrow> listing list \<Rightarrow> listing list" where
  "scrape_containers extract [] found = found"
| "scrape_containers extract (c # cs) found =
     (case extract c of
        Inr (Some p) \<Rightarrow> scrape_containers extract cs (found @ [p])
      | Inr None \<Rightarrow> scrape_containers extract cs found
      | Inl e \<Rightarrow> scrape_containers extract cs found)"

text \<open>
  \<open>scrape\<close>: a failure to start the browser leaves the function as an exception; a
  failure to load or read the page is caught inside and the products found so far
  (none) are returned.
\<close>

definition scrape_page ::
  "(container \<Rightarrow> py_error + listing option) \<Rightarrow> ((string \<Rightarrow> container list) \<Rightarrow> int \<Rightarrow> container list) \<Rightarrow>
   page \<Rightarrow> int \<Rightarrow> py_error + listing list" where
  "scrape_page extract containers_of pg max_products =
     (case pg of
        LaunchError e \<Rightarrow> Inl e
      | GotoError e \<Rightarrow> Inr []
      | Rendered soup \<Rightarrow>
          Inr (scrape_containers extract
                 (slice_to max_products (containers_of soup max_products)) []))"

section \<open>FairPriceScraper, ShengSiongScraper and GiantScraper\<close>

text \<open>
  The three scrapers have the same body and differ in their selectors, their platform
  name and their base URL, which are collected here.
\<close>

record simple_scraper =
  scraper_platform :: string
  scraper_base_url :: string
  container_css :: "string \<times> string \<times> string"
  name_css :: "string list"
  price_css :: "string list"

definition FairPriceScraper :: simple_scraper where
  \<open>FairPriceScraper =
     \<lparr>scraper_platform = ''fairprice'',
      scraper_base_url = ''https://www.fairprice.com.sg'',
      container_css = (''div[data-testid="product-container"]'', ''div.product-container'',
                       ''div[class*="Product"]''),
      name_css = [''div[data-testid="product-name"]'', ''[class*="product-name"]'', ''h3''],
      price_css = [''span[data-testid="product-price"]'', ''[class*="price"]'']\<rparr>\<close>

definition ShengSiongScraper :: simple_scraper where
  \<open>ShengSiongScraper =
     \<lparr>scraper_platform = ''shengsiong'',
      scraper_base_url = ''https://shengsiong.com.sg'',
      container_css = (''div.product-item'', ''div[class*="product-card"]'',
                       ''div[class*="Product"]''),
      name_css = [''h3.product-name'', ''div.product-title'', ''[class*="name"]'', ''h3''],
      price_css = [''span.price'', ''[class*="price"]'']\<rparr>\<close>

definition GiantScraper :: simple_scraper where
  \<open>GiantScraper =
     \<lparr>scraper_platform = ''giant'',
      scraper_base_url = ''https://giant.sg'',
      container_css = (''div.product-tile'', ''div[class*="product-item"]'',
                       ''div[class*="Product"]''),
      name_css = [''h3.product-name'', ''div.product-title'', ''[class*="name"]'', ''h3''],
      price_css = [''span.price'', ''[class*="price"]'']\<rparr>\<close>

definition simple_containers ::
  "simple_scraper \<Rightarrow> (string \<Rightarrow> container list) \<Rightarrow> int \<Rightarrow> container list" where
  "simple_containers s soup max_products =
     (case container_css s of
        (c1, c2, c3) \<Rightarrow> or_list (soup c1) (or_list (soup c2) (slice_to max_products (soup c3))))"

text \<open>The body of the loop for one container.\<close>

definition simple_extract :: "simple_scraper \<Rightarrow> runtime \<Rightarrow> container \<Rightarrow> py_error + listing option" where
  \<open>simple_extract s rt c =
     (case first_match c (name_css s) of
        None \<Rightarrow> Inr None
      | Some name_elem \<Rightarrow>
          (case extract_price
                  (Some (case first_match c (price_css s) of
                           Some price_elem \<Rightarrow> get_text price_elem
                         | None \<Rightarrow> ''0'')) of
             Inl e \<Rightarrow> Inl e
           | Inr pr \<Rightarrow>
               (case extract_price
                       (Some (case select_one c ''[class*="original"]'' of
                                Some original_price_elem \<Rightarrow> get_text original_price_elem
                              | None \<Rightarrow> str_float rt pr)) of
                  Inl e \<Rightarrow> Inl e
                | Inr orig \<Rightarrow>
                    Inr (Some
                      \<lparr>name = get_text_strip name_elem,
                       type = categorize_milo_product (get_text_strip name_elem),
                       price = pr,
                       original_price = (if 0 < orig then orig else pr),
                       flash_sale = (pr < orig \<and> 0 < pr),
                       flash_sale_type = None,
                       flash_sale_end = None,
                       discount_percent = None,
                       url = product_url_of (scraper_base_url s) (select_one c ''a''),
                       platform = scraper_platform s,
                       scraped_at = now_isoformat rt\<rparr>))))\<close>

definition simple_scrape :: "simple_scraper \<Rightarrow> runtime \<Rightarrow> page \<Rightarrow> int \<Rightarrow> py_error + listing list" where
  "simple_scrape s rt pg max_products =
     scrape_page (simple_extract s rt) (simple_containers s) pg max_products"

section \<open>ShopeeScraper\<close>

record flash_info =
  is_flash_sale :: bool
  sale_type :: string
  ends_at :: "string option"

definition shopee_flash_indicators :: "string list" where
  "shopee_flash_indicators =
     [''flash sale'', ''flash deal'', ''lightning deal'', ''limited time'',
      ''hourly sale'', ''shopee live sale'', ''limited offer'']"

text \<open>The countdown timer, looked up in the same way by both detectors.\<close>

definition timer_elem_of :: "container \<Rightarrow> element option" where
  \<open>timer_elem_of c =
     first_match c [''[class*="countdown"]'', ''[class*="timer"]'', ''[class*="time-left"]'']\<close>

definition apply_timer :: "element option \<Rightarrow> flash_info \<Rightarrow> flash_info" where
  "apply_timer timer_elem fi =
     (case timer_elem of
        None \<Rightarrow> fi
      | Some t \<Rightarrow>
          fi\<lparr>is_flash_sale := True,
             sale_type := (if sale_type fi = ''normal'' then ''flash_sale'' else sale_type fi),
             ends_at := Some (if get_text_strip t \<noteq> [] then get_text_strip t else ''Soon'')\<rparr>)"

text \<open>The significant discount check, with the threshold of the platform in percent.\<close>

definition apply_discount :: "real \<Rightarrow> real \<Rightarrow> real \<Rightarrow> flash_info \<Rightarrow> flash_info" where
  "apply_discount threshold current_price orig fi =
     (if \<not> is_flash_sale fi \<and> current_price < orig \<and> 0 < current_price then
        (let discount = ((orig - current_price) / orig) * 100 in
         if threshold \<le> discount then fi\<lparr>is_flash_sale := True, sale_type := ''discount''\<rparr>
         else fi)
      else fi)"

text \<open>
  \<open>_detect_shopee_flash_sale\<close>: the checks of the text, the badges and the timer read
  the container only; they are \<open>shopee_flash_signals\<close>. The discount check comes last.
\<close>

definition shopee_flash_signals :: "container \<Rightarrow> flash_info" where
  \<open>shopee_flash_signals c =
     (let f0 = \<lparr>is_flash_sale = False, sale_type = ''normal'', ends_at = None\<rparr>;
          text = lower (container_text c);
          f1 = (if list_ex (\<lambda>indicator. py_in indicator text) shopee_flash_indicators
                then f0\<lparr>is_flash_sale := True, sale_type := ''flash_sale''\<rparr> else f0);
          flash_badges = or_list (select c ''[class*="flash"]'') (select c ''[class*="Flash"]'');
          f2 = (if flash_badges \<noteq> []
                then f1\<lparr>is_flash_sale := True, sale_type := ''flash_sale''\<rparr> else f1);
          shopee_badges =
            or_list (select c ''[class*="shopee-sale"]'') (select c ''[class*="promotion"]'');
          f3 = (if shopee_badges \<noteq> [] \<and> \<not> is_flash_sale f2
                then f2\<lparr>is_flash_sale := True, sale_type := ''shopee_sale''\<rparr> else f2)
      in apply_timer (timer_elem_of c) f3)\<close>

definition detect_shopee_flash_sale :: "container \<Rightarrow> real \<Rightarrow> real \<Rightarrow> flash_info" where
  "detect_shopee_flash_sale c current_price orig =
     apply_discount 20 current_price orig (shopee_flash_signals c)"

definition shopee_name_of :: "container \<Rightarrow> string option" where
  \<open>shopee_name_of c =
     (case first_match c [''div[data-sqe="name"]'', ''div.shopee-item-card__text-name'',
                          ''[class*="item-name"]''] of
        Some name_elem \<Rightarrow> Some (get_text_strip name_elem)
      | None \<Rightarrow> find_milo c)\<close>

definition shopee_extract_product_with_flash_sale ::
  "runtime \<Rightarrow> container \<Rightarrow> py_error + listing option" where
  \<open>shopee_extract_product_with_flash_sale rt c =
     (case shopee_name_of c of
        None \<Rightarrow> Inr None
      | Some nm \<Rightarrow>
          (case extract_price
                  (Some (case first_match c [''span[data-sqe="price"]'',
                                             ''span.shopee-item-card__current-price'',
                                             ''[class*="current-price"]''] of
                           Some price_elem \<Rightarrow> get_text price_elem
                         | None \<Rightarrow> ''0'')) of
             Inl e \<Rightarrow> Inl e
           | Inr pr \<Rightarrow>
               (case extract_price
                       (Some (case first_match c [''span[class*="original-price"]'', ''del'',
                                                  ''[class*="price-before-discount"]''] of
                                Some original_price_elem \<Rightarrow> get_text original_price_elem
                              | None \<Rightarrow> str_float rt pr)) of
                  Inl e \<Rightarrow> Inl e
                | Inr orig \<Rightarrow>
                    (let flash_sale_info = detect_shopee_flash_sale c pr orig;
                         link_elem = or_else (select_one c ''a[data-sqe="link"]'') (select_one c ''a'')
                     in Inr (Some
                          \<lparr>name = nm,
                           type = categorize_milo_product nm,
                           price = pr,
                           original_price = (if 0 < orig then orig else pr),
                           flash_sale = is_flash_sale flash_sale_info,
                           flash_sale_type = Some (sale_type flash_sale_info),
                           flash_sale_end = ends_at flash_sale_info,
                           discount_percent =
                             Some (if pr < orig \<and> 0 < pr
                                   then py_round (((orig - pr) / orig) * 100) 1 else 0),
                           url = product_url_of ''https://shopee.sg'' link_elem,
                           platform = ''shopee'',
                           scraped_at = now_isoformat rt\<rparr>)))))\<close>

definition shopee_containers :: "(string \<Rightarrow> container list) \<Rightarrow> int \<Rightarrow> container list" where
  \<open>shopee_containers soup max_products =
     or_list (soup ''div[data-sqe="item"]'')
       (or_list (soup ''div.shopee-search-item-result__item'')
          (slice_to max_products (soup ''div[class*="item-card"]'')))\<close>

definition shopee_scrape :: "runtime \<Rightarrow> page \<Rightarrow> int \<Rightarrow> py_error + listing list" where
  "shopee_scrape rt pg max_products =
     scrape_page (shopee_extract_product_with_flash_sale rt) shopee_containers pg max_products"

section \<open>LazadaScraper\<close>

definition lazada_flash_indicators :: "string list" where
  "lazada_flash_indicators =
     [''lazflash'', ''flash sale'', ''flash deal'', ''lightning deal'',
      ''limited time'', ''limited quantity'', ''ending soon'', ''lazada sale'']"

text \<open>
  \<open>_detect_lazada_flash_sale\<close>: the checks of the text, the badges, the sale tags, the
  timer and the stock wording read the container only; they are
  \<open>lazada_flash_signals\<close>. The discount check comes last.
\<close>

definition lazada_flash_signals :: "container \<Rightarrow> flash_info" where
  \<open>lazada_flash_signals c =
     (let f0 = \<lparr>is_flash_sale = False, sale_type = ''normal'', ends_at = None\<rparr>;
          text = lower (container_text c);
          f1 = (case find (\<lambda>indicator. py_in indicator text) lazada_flash_indicators of
                  None \<Rightarrow> f0
                | Some indicator \<Rightarrow>
                    f0\<lparr>is_flash_sale := True,
                       sale_type := (if py_in ''lazflash'' indicator \<or> py_in ''flash'' indicator
                                     then ''flash_sale'' else ''lazada_sale'')\<rparr>);
          flash_badges =
            or_list (select c ''[class*="flash"]'')
              (or_list (select c ''[class*="Flash"]'') (select c ''[class*="LazFlash"]''));
          f2 = (if flash_badges \<noteq> []
                then f1\<lparr>is_flash_sale := True, sale_type := ''flash_sale''\<rparr> else f1);
          sale_tags =
            or_list (select c ''[class*="sale-tag"]'')
              (or_list (select c ''[class*="promotion"]'') (select c ''[class*="badge"]''));
          f3 = (if sale_tags \<noteq> [] \<and> \<not> is_flash_sale f2 \<and>
                   list_ex (\<lambda>tag. list_ex (\<lambda>word. py_in word (lower (get_text tag)))
                                     [''flash'', ''limited'', ''ending'']) sale_tags
                then f2\<lparr>is_flash_sale := True, sale_type := ''flash_sale''\<rparr> else f2);
          f4 = apply_timer (timer_elem_of c) f3;
          stock_indicators = or_list (select c ''[class*="stock"]'') (select c ''[class*="quantity"]'');
          stock_wording =
            list_ex (\<lambda>indicator. list_ex (\<lambda>word. py_in word (lower (get_text indicator)))
                                     [''left'', ''remaining'', ''limited'']) stock_indicators
      in if stock_wording \<and> \<not> is_flash_sale f4
         then f4\<lparr>is_flash_sale := True, sale_type := ''limited_stock''\<rparr> else f4)\<close>

definition detect_lazada_flash_sale :: "container \<Rightarrow> real \<Rightarrow> real \<Rightarrow> flash_info" where
  "detect_lazada_flash_sale c current_price orig =
     apply_discount 15 current_price orig (lazada_flash_signals c)"

definition lazada_name_of :: "container \<Rightarrow> string option" where
  \<open>lazada_name_of c =
     (case first_match c [''div[data-qa-locator="product-name"]'', ''div.RfADt'', ''[title]''] of
        None \<Rightarrow> None
      | Some name_elem \<Rightarrow>
          Some (case map_of (attrs name_elem) ''title'' of
                  Some title \<Rightarrow> title
                | None \<Rightarrow> get_text_strip name_elem))\<close>

definition lazada_extract_product_with_flash_sale ::
  "runtime \<Rightarrow> container \<Rightarrow> py_error + listing option" where
  \<open>lazada_extract_product_with_flash_sale rt c =
     (case lazada_name_of c of
        None \<Rightarrow> Inr None
      | Some nm \<Rightarrow>
          (case extract_price
                  (Some (case first_match c [''span[data-qa-locator="product-price"]'',
                                             ''span.ooOxS'', ''[class*="price"]''] of
                           Some price_elem \<Rightarrow> get_text price_elem
                         | None \<Rightarrow> ''0'')) of
             Inl e \<Rightarrow> Inl e
           | Inr pr \<Rightarrow>
               (case extract_price
                       (Some (case first_match c [''del[class*="price"]'', ''[class*="original"]'',
                                                  ''del''] of
                                Some original_price_elem \<Rightarrow> get_text original_price_elem
                              | None \<Rightarrow> str_float rt pr)) of
                  Inl e \<Rightarrow> Inl e
                | Inr orig \<Rightarrow>
                    (let flash_sale_info = detect_lazada_flash_sale c pr orig;
                         link_elem = select_one c ''a''
                     in Inr (Some
                          \<lparr>name = nm,
                           type = categorize_milo_product nm,
                           price = pr,
                           original_price = (if 0 < orig then orig else pr),
                           flash_sale = is_flash_sale flash_sale_info,
                           flash_sale_type = Some (sale_type flash_sale_info),
                           flash_sale_end = ends_at flash_sale_info,
                           discount_percent =
                             Some (if pr < orig \<and> 0 < pr
                                   then py_round (((orig - pr) / orig) * 100) 1 else 0),
                           url = product_url_of ''https://www.lazada.sg'' link_elem,
                           platform = ''lazada'',
                           scraped_at = now_isoformat rt\<rparr>)))))\<close>

definition lazada_containers :: "(string \<Rightarrow> container list) \<Rightarrow> int \<Rightarrow> container list" where
  \<open>lazada_containers soup max_products =
     or_list (soup ''div[data-qa-locator="product-item"]'')
       (or_list (soup ''div.Bm3ON'')
          (slice_to max_products (soup ''div[class*="product"]'')))\<close>

definition lazada_scrape :: "runtime \<Rightarrow> page \<Rightarrow> int \<Rightarrow> py_error + listing list" where
  "lazada_scrape rt pg max_products =
     scrape_page (lazada_extract_product_with_flash_sale rt) lazada_containers pg max_products"

section \<open>Auxiliary notion for the scraping loop\<close>

text \<open>What one container contributes to the products: its listing, or nothing.\<close>

definition keep_product :: "(container \<Rightarrow> py_error + listing option) \<Rightarrow> container \<Rightarrow> listing option" where
  "keep_product extract c =
     (case extract c of Inr (Some p) \<Rightarrow> Some p | Inr None \<Rightarrow> None | Inl e \<Rightarrow> None)"

section \<open>Example inputs\<close>

definition ex_listing :: listing where
  "ex_listing = \<lparr>name = ''Milo UHT 200ml'', type = ''uht'', price = 5, original_price = 5,
     flash_sale = False, flash_sale_type = None, flash_sale_end = None, discount_percent = None,
     url = '''', platform = ''fairprice'', scraped_at = ''2024-01-01T00:00:00''\<rparr>"





definition ex_rt :: runtime where
  "ex_rt = \<lparr>str_float = (\<lambda>x. if x = 59 / 10 then ''5.9'' else ''0.0''),
            now_isoformat = ''2024-01-01T00:00:00''\<rparr>"

definition ex_elem :: "string \<Rightarrow> element" where
  "ex_elem t = \<lparr>get_text = t, get_text_strip = t, attrs = []\<rparr>"

definition ex_fp_container :: container where
  \<open>ex_fp_container =
     \<lparr>select = (\<lambda>css. if css = ''h3'' then [ex_elem ''Milo UHT 200ml'']
                      else if css = ''[class*="price"]'' then [ex_elem ''$5.90'']
                      else if css = ''[class*="original"]'' then [ex_elem ''$7.90'']
                      else []),
      container_text = ''Milo UHT 200ml $5.90 $7.90'',
      find_milo = Some ''Milo UHT 200ml''\<rparr>\<close>

definition ex_nameless_container :: container where
  "ex_nameless_container =
     \<lparr>select = (\<lambda>css. []), container_text = ''Sponsored'', find_milo = None\<rparr>"

definition ex_fp_soup :: "string \<Rightarrow> container list" where
  "ex_fp_soup = (\<lambda>css. if css = ''div.product-container''
                       then [ex_nameless_container, ex_fp_container, ex_fp_container] else [])"

definition ex_fp_listing :: listing where
  "ex_fp_listing =
     \<lparr>name = ''Milo UHT 200ml'', type = ''uht'', price = 59 / 10, original_price = 79 / 10,
      flash_sale = True, flash_sale_type = None, flash_sale_end = None, discount_percent = None,
      url = '''', platform = ''fairprice'', scraped_at = ''2024-01-01T00:00:00''\<rparr>"






section \<open>Properties of the string helpers\<close>

lemma py_in_sublist: "py_in w s \<longleftrightarrow> sublist w s"
  by (induction s) (auto simp: sublist_Cons_right)

lemma any_word_in_iff: "any_word_in ws s \<longleftrightarrow> (\<exists>w \<in> set ws. sublist w s)"
  by (simp add: any_word_in_def list_ex_iff py_in_sublist)

section \<open>Properties of price parsing\<close>

lemma takeWhile_run:
  "list_all P ds \<Longrightarrow> rest = [] \<or> \<not> P (hd rest) \<Longrightarrow> takeWhile P (ds @ rest) = ds"
  by (induction ds) (auto simp: takeWhile_eq_Nil_iff neq_Nil_conv)

lemma dropWhile_run:
  "list_all P ds \<Longrightarrow> rest = [] \<or> \<not> P (hd rest) \<Longrightarrow> dropWhile P (ds @ rest) = rest"
  by (induction ds) (auto simp: dropWhile_eq_self_iff neq_Nil_conv)

lemma re_match_at_no_digit: "\<not> is_digit c \<Longrightarrow> re_match_at (c # cs) = None"
  by (simp add: re_match_at_def)

lemma re_search_skip:
  "list_all (\<lambda>c. \<not> is_digit c) pre \<Longrightarrow> ds \<noteq> [] \<Longrightarrow> list_all is_digit ds \<Longrightarrow>
   re_search (pre @ ds @ rest) = re_match_at (ds @ rest)"
proof (induction pre)
  case Nil
  then obtain d ds' where ds: "ds = d # ds'" and d: "is_digit d"
    by (cases ds) auto
  then have "re_match_at (ds @ rest) \<noteq> None"
    by (simp add: re_match_at_def Let_def split: list.splits)
  with ds show ?case by (auto split: option.splits)
next
  case (Cons c pre)
  then show ?case by (simp add: re_match_at_no_digit)
qed

lemma re_match_at_run:
  assumes "ds \<noteq> []" "list_all is_digit ds" "rest = [] \<or> \<not> is_digit (hd rest)"
  shows "re_match_at (ds @ rest) =
    Some (case rest of [] \<Rightarrow> ds
          | c # r \<Rightarrow> if c = CHR ''.'' then ds @ c # takeWhile is_digit r else ds)"
  using assms
  by (simp add: re_match_at_def Let_def takeWhile_run dropWhile_run split: list.splits)

lemma dot_no_digit: "\<not> is_digit (CHR ''.'')"
  by (simp add: is_digit_def)

lemma py_float_int: "ds \<noteq> [] \<Longrightarrow> list_all is_digit ds \<Longrightarrow> py_float ds = Inr (real (digits_value ds))"
proof -
  assume a: "ds \<noteq> []" "list_all is_digit ds"
  then have t: "takeWhile is_digit ds = ds" and d: "dropWhile is_digit ds = []"
    by (simp_all add: list_all_iff)
  show ?thesis unfolding py_float_def Let_def t d using a by simp
qed

lemma py_float_frac:
  "ds \<noteq> [] \<Longrightarrow> list_all is_digit ds \<Longrightarrow> list_all is_digit fs \<Longrightarrow>
   py_float (ds @ CHR ''.'' # fs) = Inr (real (digits_value ds) + fraction_value fs)"
  by (simp add: py_float_def Let_def dot_no_digit takeWhile_run dropWhile_run)

lemma list_all_takeWhile: "list_all P (takeWhile P xs)"
  by (induction xs) auto

lemma re_match_at_float:
  "re_match_at s = Some m \<Longrightarrow> \<exists>v. py_float m = Inr v \<and> 0 \<le> v"
  by (auto simp: re_match_at_def Let_def py_float_int py_float_frac list_all_takeWhile
      fraction_value_def split: if_splits list.splits)

lemma re_search_float:
  "re_search s = Some m \<Longrightarrow> \<exists>v. py_float m = Inr v \<and> 0 \<le> v"
  by (induction s) (auto split: option.splits dest: re_match_at_float)

lemma re_search_no_digit: "list_all (\<lambda>c. \<not> is_digit c) s \<Longrightarrow> re_search s = None"
  by (induction s) (auto simp: re_match_at_no_digit)

lemma strip_digits: "is_digit c \<Longrightarrow> c \<in> set (strip_price_text s) \<longleftrightarrow> c \<in> set s"
  by (auto simp: strip_price_text_def remove_char_def is_digit_def)

lemma extract_price_returns: "\<exists>v. extract_price t = Inr v \<and> 0 \<le> v"
  by (auto simp: extract_price_def Let_def split: option.splits dest: re_search_float)

lemma extract_price_no_digit:
  assumes "\<forall>c \<in> set s. \<not> is_digit c"
  shows "extract_price (Some s) = Inr 0"
proof -
  have "list_all (\<lambda>c. \<not> is_digit c) (strip_price_text s)"
    using assms by (auto simp: list_all_iff strip_price_text_def remove_char_def)
  then show ?thesis
    by (simp add: extract_price_def Let_def re_search_no_digit)
qed

lemma extract_price_first:
  assumes "strip_price_text s = pre @ ds @ rest"
    and "list_all (\<lambda>c. \<not> is_digit c) pre" and "ds \<noteq> []" and "list_all is_digit ds"
    and "rest = [] \<or> \<not> is_digit (hd rest)"
  shows "extract_price (Some s) =
     Inr (real (digits_value ds) +
          (case rest of [] \<Rightarrow> 0
           | c # r \<Rightarrow> if c = CHR ''.'' then fraction_value (takeWhile is_digit r) else 0))"
proof -
  have "s \<noteq> []" using assms by (auto simp: strip_price_text_def remove_char_def)
  moreover have "re_search (strip_price_text s) = Some (case rest of [] \<Rightarrow> ds
          | c # r \<Rightarrow> if c = CHR ''.'' then ds @ c # takeWhile is_digit r else ds)"
    using assms by (simp add: re_search_skip re_match_at_run)
  ultimately show ?thesis using assms
    by (simp add: extract_price_def Let_def py_float_int py_float_frac list_all_takeWhile
        split: list.splits)
qed

lemma first_number_exists:
  assumes "\<exists>c \<in> set s. is_digit c"
  shows "\<exists>pre ds rest. s = pre @ ds @ rest \<and> list_all (\<lambda>c. \<not> is_digit c) pre \<and> ds \<noteq> [] \<and>
           list_all is_digit ds \<and> (rest = [] \<or> \<not> is_digit (hd rest))"
proof -
  let ?pre = "takeWhile (\<lambda>c. \<not> is_digit c) s"
  let ?t = "dropWhile (\<lambda>c. \<not> is_digit c) s"
  let ?ds = "takeWhile is_digit ?t"
  let ?rest = "dropWhile is_digit ?t"
  have t: "?t \<noteq> []" using assms by (auto simp: dropWhile_eq_Nil_conv)
  then have "is_digit (hd ?t)" using hd_dropWhile [of "\<lambda>c. \<not> is_digit c" s] by simp
  with t have "?ds \<noteq> []" by (cases ?t) auto
  moreover have "?rest = [] \<or> \<not> is_digit (hd ?rest)"
    using hd_dropWhile [of is_digit ?t] by blast
  moreover have "s = ?pre @ ?ds @ ?rest" by simp
  moreover have "list_all (\<lambda>c. \<not> is_digit c) ?pre" "list_all is_digit ?ds"
    by (rule list_all_takeWhile)+
  ultimately show ?thesis by blast
qed

section \<open>Claims about BaseScraper\<close>

text \<open>
  C9. Categorisation is total and answers one of the four categories. The lowercased
  name is tested against the uht words, then the powder words, then the bottle words;
  the first set with a word occurring in the name decides, and a name with no such word
  is \<open>other\<close>. In particular a name holding a uht word and a powder word is \<open>uht\<close>.
\<close>

theorem categorize_total_priority:
  "categorize_milo_product nm \<in> {''uht'', ''powder'', ''bottle'', ''other''} \<and>
   ((\<exists>w \<in> set uht_words. sublist w (lower nm)) \<longrightarrow>
      categorize_milo_product nm = ''uht'') \<and>
   (\<not> (\<exists>w \<in> set uht_words. sublist w (lower nm)) \<and>
    (\<exists>w \<in> set powder_words. sublist w (lower nm)) \<longrightarrow>
      categorize_milo_product nm = ''powder'') \<and>
   (\<not> (\<exists>w \<in> set uht_words. sublist w (lower nm)) \<and>
    \<not> (\<exists>w \<in> set powder_words. sublist w (lower nm)) \<and>
    (\<exists>w \<in> set bottle_words. sublist w (lower nm)) \<longrightarrow>
      categorize_milo_product nm = ''bottle'') \<and>
   (\<not> (\<exists>w \<in> set uht_words. sublist w (lower nm)) \<and>
    \<not> (\<exists>w \<in> set powder_words. sublist w (lower nm)) \<and>
    \<not> (\<exists>w \<in> set bottle_words. sublist w (lower nm)) \<longrightarrow>
      categorize_milo_product nm = ''other'')"
  unfolding categorize_milo_product_def Let_def any_word_in_iff by simp

theorem categorize_total_priority_witness:
  "sublist ''uht'' (lower ''Milo UHT Powder Pack'') \<and>
   sublist ''powder'' (lower ''Milo UHT Powder Pack'') \<and>
   categorize_milo_product ''Milo UHT Powder Pack'' = ''uht''"
proof -
  have l: "lower ''Milo UHT Powder Pack'' = ''milo uht powder pack''"
    by (simp add: lower_def lower_char_def)
  have u: "sublist ''uht'' (lower ''Milo UHT Powder Pack'')"
    unfolding l py_in_sublist [symmetric] by simp
  have p: "sublist ''powder'' (lower ''Milo UHT Powder Pack'')"
    unfolding l py_in_sublist [symmetric] by simp
  have "\<exists>w \<in> set uht_words. sublist w (lower ''Milo UHT Powder Pack'')"
    using u by (simp add: uht_words_def)
  with categorize_total_priority [of "''Milo UHT Powder Pack''"] u p
  show ?thesis by blast
qed

text \<open>
  C8. Price parsing never raises and answers a number that is not negative. An absent or
  empty text, and a text without a digit, give 0. Otherwise, after the commas, dollar
  signs and capital S are removed, the answer is the value of the first run of digits
  with the fraction that follows it: \<open>pre\<close> holds no digit, \<open>ds\<close> is the maximal run of
  digits after it, and a dot right after \<open>ds\<close> brings the digits behind it as decimals.
\<close>

theorem extract_price_total:
  "(\<exists>v. extract_price t = Inr v \<and> 0 \<le> v) \<and>
   (t = None \<or> t = Some [] \<longrightarrow> extract_price t = Inr 0) \<and>
   (\<forall>s. t = Some s \<and> (\<forall>c \<in> set s. \<not> is_digit c) \<longrightarrow> extract_price t = Inr 0) \<and>
   (\<forall>s pre ds rest.
      t = Some s \<and> strip_price_text s = pre @ ds @ rest \<and>
      list_all (\<lambda>c. \<not> is_digit c) pre \<and> ds \<noteq> [] \<and> list_all is_digit ds \<and>
      (rest = [] \<or> \<not> is_digit (hd rest)) \<longrightarrow>
      extract_price t =
        Inr (real (digits_value ds) +
             (case rest of
                [] \<Rightarrow> 0
              | c # r \<Rightarrow> if c = CHR ''.'' then fraction_value (takeWhile is_digit r) else 0))) \<and>
   extract_price (Some ''no digits'') = Inr 0 \<and>
   extract_price (Some ''$1,234.50'') = Inr 1234.5"
proof -
  have a: "\<exists>v. extract_price t = Inr v \<and> 0 \<le> v"
    by (rule extract_price_returns)
  have b: "t = None \<or> t = Some [] \<longrightarrow> extract_price t = Inr 0"
    by (auto simp: extract_price_def)
  have c: "\<forall>s. t = Some s \<and> (\<forall>c \<in> set s. \<not> is_digit c) \<longrightarrow> extract_price t = Inr 0"
    using extract_price_no_digit by blast
  have d: "\<forall>s pre ds rest.
      t = Some s \<and> strip_price_text s = pre @ ds @ rest \<and>
      list_all (\<lambda>c. \<not> is_digit c) pre \<and> ds \<noteq> [] \<and> list_all is_digit ds \<and>
      (rest = [] \<or> \<not> is_digit (hd rest)) \<longrightarrow>
      extract_price t =
        Inr (real (digits_value ds) +
             (case rest of
                [] \<Rightarrow> 0
              | c # r \<Rightarrow> if c = CHR ''.'' then fraction_value (takeWhile is_digit r) else 0))"
    using extract_price_first by blast
  have e: "extract_price (Some ''no digits'') = Inr 0"
    by (simp add: extract_price_def strip_price_text_def remove_char_def re_match_at_def
        is_digit_def)
  have f: "extract_price (Some ''$1,234.50'') = Inr 1234.5"
    by (simp add: extract_price_def strip_price_text_def remove_char_def re_match_at_def
        is_digit_def py_float_def digits_value_def digit_val_def fraction_value_def)
  from a b c d e f show ?thesis by blast
qed

theorem extract_price_total_witness:
  "strip_price_text ''S$5.90 each'' = [] @ ''5'' @ ''.90 each'' \<and>
   extract_price (Some ''S$5.90 each'') = Inr 5.9 \<and>
   extract_price (Some ''Out of stock'') = Inr 0 \<and>
   extract_price None = Inr 0"
proof -
  have s: "strip_price_text ''S$5.90 each'' = [] @ ''5'' @ ''.90 each''"
    by (simp add: strip_price_text_def remove_char_def)
  have n: "\<forall>c \<in> set ''Out of stock''. \<not> is_digit c"
    by (simp add: is_digit_def)
  have d: "list_all (\<lambda>c. \<not> is_digit c) [] \<and> ''5'' \<noteq> [] \<and> list_all is_digit ''5'' \<and>
           (''.90 each'' = [] \<or> \<not> is_digit (hd ''.90 each''))"
    by (simp add: is_digit_def)
  have v: "real (digits_value ''5'') +
           (case ''.90 each'' of
              [] \<Rightarrow> 0
            | c # r \<Rightarrow> if c = CHR ''.'' then fraction_value (takeWhile is_digit r) else 0) = 5.9"
    by (simp add: digits_value_def digit_val_def fraction_value_def is_digit_def)
  have "extract_price (Some ''S$5.90 each'') =
        Inr (real (digits_value ''5'') +
             (case ''.90 each'' of
                [] \<Rightarrow> 0
              | c # r \<Rightarrow> if c = CHR ''.'' then fraction_value (takeWhile is_digit r) else 0))"
    using extract_price_total [of "Some ''S$5.90 each''"] s d by blast
  moreover have "extract_price (Some ''Out of stock'') = Inr 0"
    using extract_price_total [of "Some ''Out of stock''"] n by blast
  moreover have "extract_price None = Inr 0"
    using extract_price_total [of None] by blast
  ultimately show ?thesis using s v by (simp del: append.simps)
qed

section \<open>The scrape cycle and the cache\<close>

lemma dict_set_fresh: "k \<notin> fst ` set d \<Longrightarrow> dict_set k v d = d @ [(k, v)]"
  by (induction d) auto

lemma mps_scrape_loop_eq:
  "distinct pfs \<Longrightarrow> set pfs \<inter> fst ` set acc = {} \<Longrightarrow>
   mps_scrape_loop scrape pfs acc =
     acc @ map (\<lambda>pf. (pf, case scrape pf of Inr ps \<Rightarrow> ps | Inl e \<Rightarrow> [])) pfs"
proof (induction pfs arbitrary: acc)
  case Nil
  then show ?case by simp
next
  case (Cons pf pfs)
  have fresh: "pf \<notin> fst ` set acc" using Cons.prems by auto
  have step: "set pfs \<inter> fst ` set (acc @ [(pf, v)]) = {}" for v
    using Cons.prems by auto
  show ?case
    using Cons.prems Cons.IH [OF _ step]
    by (cases "scrape pf") (simp_all add: dict_set_fresh [OF fresh])
qed

lemma scrape_loop_fst:
  "fst (scrape_loop scrape pfs (acc, byp)) = mps_scrape_loop scrape pfs acc"
  by (induction pfs arbitrary: acc byp) (auto split: sum.splits)

lemma distinct_platform_names: "distinct platform_names"
  by (simp add: platform_names_def)

lemma mps_scrape_all_platforms_eq:
  "mps_scrape_all_platforms scrape =
     map (\<lambda>pf. (pf, case scrape pf of Inr ps \<Rightarrow> ps | Inl e \<Rightarrow> [])) platform_names"
  unfolding mps_scrape_all_platforms_def
  using mps_scrape_loop_eq [OF distinct_platform_names, of "[]" scrape] by simp

lemma concat_no_listing: "concat (map (\<lambda>pf. []) pfs) = []"
  by (induction pfs) auto

lemma consolidate_loop_no_listing:
  "consolidate_products (map (\<lambda>pf. (pf, [])) pfs) = []"
  by (simp add: consolidate_products_def comp_def concat_no_listing)

lemma scrape_all_platforms_fst:
  "fst (scrape_all_platforms scrape now c) = consolidate_products (mps_scrape_all_platforms scrape)"
  unfolding scrape_all_platforms_def Let_def mps_scrape_all_platforms_def
  by (simp add: split_beta scrape_loop_fst)

lemma scrape_all_platforms_cache:
  "last_updated (snd (scrape_all_platforms scrape now c)) = Some now \<and>
   products (snd (scrape_all_platforms scrape now c)) = fst (scrape_all_platforms scrape now c)"
  unfolding scrape_all_platforms_def Let_def
  by (simp add: split_beta update_cache_def)

lemma get_cached_data_within_a_day:
  assumes "last_updated c = Some t" "0 \<le> now - t" "now - t < 86400 * 1000000"
  shows "get_cached_data now c =
           (if now - t < CACHE_DURATION * 1000000 then Some (products c) else None)"
proof -
  have "(now - t) div 1000000 < 86400" using assms by linarith
  moreover have "0 \<le> (now - t) div 1000000" using assms by simp
  ultimately have "timedelta_seconds (now - t) = (now - t) div 1000000"
    by (simp add: timedelta_seconds_def)
  moreover have "(now - t) div 1000000 < 3600 \<longleftrightarrow> now - t < 3600 * 1000000"
    by linarith
  ultimately show ?thesis using assms
    by (simp add: get_cached_data_def CACHE_DURATION_def)
qed

text \<open>
  C4. Each platform is scraped on its own: the result map of a cycle has one entry for
  each of the five platforms, in their order, and the entry of a platform is the list
  its scraper returned, or the empty list when its scraper raised; no entry depends on
  what another platform did. The cycle of the backend builds the same map, consolidates
  it, and stores the result with the time of the update. When every platform fails, all
  lists are empty and the consolidated list is empty.
\<close>

theorem scrape_cycle_isolates_failures:
  "mps_scrape_all_platforms scrape =
     map (\<lambda>pf. (pf, case scrape pf of Inr ps \<Rightarrow> ps | Inl e \<Rightarrow> [])) platform_names \<and>
   map fst (mps_scrape_all_platforms scrape) = platform_names \<and>
   (\<forall>pf \<in> set platform_names.
      map_of (mps_scrape_all_platforms scrape) pf =
        Some (case scrape pf of Inr ps \<Rightarrow> ps | Inl e \<Rightarrow> [])) \<and>
   fst (scrape_loop scrape platform_names ([], by_platform c)) = mps_scrape_all_platforms scrape \<and>
   fst (scrape_all_platforms scrape now c) = consolidate_products (mps_scrape_all_platforms scrape) \<and>
   last_updated (snd (scrape_all_platforms scrape now c)) = Some now \<and>
   products (snd (scrape_all_platforms scrape now c)) = fst (scrape_all_platforms scrape now c) \<and>
   ((\<forall>pf \<in> set platform_names. \<exists>e. scrape pf = Inl e) \<longrightarrow>
      mps_scrape_all_platforms scrape = map (\<lambda>pf. (pf, [])) platform_names \<and>
      fst (scrape_all_platforms scrape now c) = [])"
proof -
  let ?r = "\<lambda>pf. (pf, case scrape pf of Inr ps \<Rightarrow> ps | Inl e \<Rightarrow> [])"
  have a: "mps_scrape_all_platforms scrape = map ?r platform_names"
    by (rule mps_scrape_all_platforms_eq)
  have b: "map fst (mps_scrape_all_platforms scrape) = platform_names"
    unfolding a by (simp add: comp_def)
  have c: "\<forall>pf \<in> set platform_names.
      map_of (mps_scrape_all_platforms scrape) pf =
        Some (case scrape pf of Inr ps \<Rightarrow> ps | Inl e \<Rightarrow> [])"
    unfolding a by (simp add: map_of_map_restrict restrict_map_def)
  have d: "fst (scrape_loop scrape platform_names ([], by_platform c)) = mps_scrape_all_platforms scrape"
    by (simp add: scrape_loop_fst mps_scrape_all_platforms_def)
  have e: "fst (scrape_all_platforms scrape now c) = consolidate_products (mps_scrape_all_platforms scrape)"
    by (rule scrape_all_platforms_fst)
  have f: "(\<forall>pf \<in> set platform_names. \<exists>e. scrape pf = Inl e) \<longrightarrow>
      mps_scrape_all_platforms scrape = map (\<lambda>pf. (pf, [])) platform_names \<and>
      fst (scrape_all_platforms scrape now c) = []"
  proof
    assume all: "\<forall>pf \<in> set platform_names. \<exists>e. scrape pf = Inl e"
    have m: "mps_scrape_all_platforms scrape = map (\<lambda>pf. (pf, [])) platform_names"
      unfolding a using all by (auto split: sum.splits)
    show "mps_scrape_all_platforms scrape = map (\<lambda>pf. (pf, [])) platform_names \<and>
      fst (scrape_all_platforms scrape now c) = []"
      using m e by (simp add: consolidate_loop_no_listing)
  qed
  from a b c d e f scrape_all_platforms_cache [of scrape now c] show ?thesis by blast
qed

theorem scrape_cycle_isolates_failures_witness:
  "map_of (mps_scrape_all_platforms
      (\<lambda>pf. if pf = ''shopee'' then Inl (RaisedException ''timeout'')
            else if pf = ''fairprice'' then Inr [ex_listing] else Inr [])) ''shopee'' = Some [] \<and>
   map_of (mps_scrape_all_platforms
      (\<lambda>pf. if pf = ''shopee'' then Inl (RaisedException ''timeout'')
            else if pf = ''fairprice'' then Inr [ex_listing] else Inr [])) ''fairprice''
     = Some [ex_listing] \<and>
   mps_scrape_all_platforms (\<lambda>pf. Inl (RaisedException ''timeout'')) =
     [(''fairprice'', []), (''shopee'', []), (''lazada'', []), (''shengsiong'', []), (''giant'', [])] \<and>
   fst (scrape_all_platforms (\<lambda>pf. Inl (RaisedException ''timeout'')) 7
          \<lparr>products = [], last_updated = None, by_platform = []\<rparr>) = []"
proof -
  let ?sc = "\<lambda>pf. if pf = ''shopee'' then Inl (RaisedException ''timeout'')
            else if pf = ''fairprice'' then Inr [ex_listing] else Inr []"
  let ?fail = "\<lambda>pf::string. (Inl (RaisedException ''timeout'') :: py_error + listing list)"
  let ?c = "\<lparr>products = [], last_updated = None, by_platform = []\<rparr>"
  have m: "''shopee'' \<in> set platform_names" "''fairprice'' \<in> set platform_names"
    by (simp_all add: platform_names_def)
  have allf: "\<forall>pf \<in> set platform_names. \<exists>e. ?fail pf = Inl e" by simp
  have "map_of (mps_scrape_all_platforms ?sc) ''shopee'' =
           Some (case ?sc ''shopee'' of Inr ps \<Rightarrow> ps | Inl e \<Rightarrow> [])"
    using scrape_cycle_isolates_failures [of ?sc ?c 7] m by blast
  then have 1: "map_of (mps_scrape_all_platforms ?sc) ''shopee'' = Some []"
    by simp
  have "map_of (mps_scrape_all_platforms ?sc) ''fairprice'' =
           Some (case ?sc ''fairprice'' of Inr ps \<Rightarrow> ps | Inl e \<Rightarrow> [])"
    using scrape_cycle_isolates_failures [of ?sc ?c 7] m by blast
  then have 2: "map_of (mps_scrape_all_platforms ?sc) ''fairprice'' = Some [ex_listing]"
    by simp
  have 3: "mps_scrape_all_platforms ?fail = map (\<lambda>pf. (pf, [])) platform_names \<and>
      fst (scrape_all_platforms ?fail 7 ?c) = []"
    using scrape_cycle_isolates_failures [of ?fail ?c 7] allf by blast
  from 1 2 3 show ?thesis by (simp add: platform_names_def)
qed

text \<open>
  C2. The freshness test reads the seconds part of the elapsed time, which starts again
  at 0 after every full day: a snapshot that is one day and ten seconds old is served
  as fresh, although its age is far beyond the time to live of 3600 seconds.
\<close>

theorem get_cached_data_wraps_after_a_day:
  "get_cached_data (t + 86410 * 1000000) \<lparr>products = ps, last_updated = Some t, by_platform = bp\<rparr>
     = Some ps"
  by (simp add: get_cached_data_def timedelta_seconds_def CACHE_DURATION_def)

text \<open>
  C10. A fresh snapshot with an empty product list is read as \<open>Some []\<close>, which the
  endpoints for the products, the best deals and the flash sales treat like a missing
  cache: each of them answers exactly as it does with no snapshot at all, by running a
  full scrape cycle and storing its result.
\<close>

theorem empty_fresh_snapshot_rescrapes:
  assumes "last_updated c = Some t" and "timedelta_seconds (now - t) < CACHE_DURATION"
    and "products c = []"
  shows "get_cached_data now c = Some [] \<and>
     get_products scrape now c = get_products scrape now (c\<lparr>last_updated := None\<rparr>) \<and>
     get_best_deals scrape now c = get_best_deals scrape now (c\<lparr>last_updated := None\<rparr>) \<and>
     get_flash_sales scrape now c = get_flash_sales scrape now (c\<lparr>last_updated := None\<rparr>) \<and>
     source (fst (get_products scrape now c)) = ''fresh_scrape'' \<and>
     snd (get_products scrape now c) = snd (scrape_all_platforms scrape now c) \<and>
     get_best_deals scrape now c =
       (best_deals_of (fst (scrape_all_platforms scrape now c)),
        snd (scrape_all_platforms scrape now c)) \<and>
     get_flash_sales scrape now c =
       (flash_sales_of (fst (scrape_all_platforms scrape now c)),
        snd (scrape_all_platforms scrape now c))"
proof -
  have g: "get_cached_data now c = Some []"
    using assms by (simp add: get_cached_data_def)
  have n: "get_cached_data now (c\<lparr>last_updated := None\<rparr>) = None"
    by (simp add: get_cached_data_def)
  have s: "scrape_all_platforms scrape now (c\<lparr>last_updated := None\<rparr>) =
           scrape_all_platforms scrape now c"
    by (simp add: scrape_all_platforms_def Let_def split_beta update_cache_def)
  have p: "get_products scrape now c = get_products scrape now (c\<lparr>last_updated := None\<rparr>)"
    by (simp add: get_products_def g n s falsy_def)
  have b: "get_best_deals scrape now c = get_best_deals scrape now (c\<lparr>last_updated := None\<rparr>)"
    by (simp add: get_best_deals_def g n s falsy_def)
  have f: "get_flash_sales scrape now c = get_flash_sales scrape now (c\<lparr>last_updated := None\<rparr>)"
    by (simp add: get_flash_sales_def g n s falsy_def)
  have p1: "source (fst (get_products scrape now c)) = ''fresh_scrape''"
    by (simp add: get_products_def g falsy_def split_beta)
  have p2: "snd (get_products scrape now c) = snd (scrape_all_platforms scrape now c)"
    by (simp add: get_products_def g falsy_def split_beta)
  have b1: "get_best_deals scrape now c =
       (best_deals_of (fst (scrape_all_platforms scrape now c)),
        snd (scrape_all_platforms scrape now c))"
    by (simp add: get_best_deals_def g falsy_def split_beta)
  have f1: "get_flash_sales scrape now c =
       (flash_sales_of (fst (scrape_all_platforms scrape now c)),
        snd (scrape_all_platforms scrape now c))"
    by (simp add: get_flash_sales_def g falsy_def split_beta)
  from g p b f p1 p2 b1 f1 show ?thesis by blast
qed

theorem empty_fresh_snapshot_rescrapes_witness:
  "timedelta_seconds (5000000 - 0) < CACHE_DURATION \<and>
   get_cached_data 5000000 \<lparr>products = [], last_updated = Some 0, by_platform = []\<rparr> = Some [] \<and>
   source (fst (get_products (\<lambda>pf. Inl (RaisedException ''timeout'')) 5000000
                  \<lparr>products = [], last_updated = Some 0, by_platform = []\<rparr>)) = ''fresh_scrape'' \<and>
   get_best_deals (\<lambda>pf. Inl (RaisedException ''timeout'')) 5000000
       \<lparr>products = [], last_updated = Some 0, by_platform = []\<rparr> =
     get_best_deals (\<lambda>pf. Inl (RaisedException ''timeout'')) 5000000
       \<lparr>products = [], last_updated = None, by_platform = []\<rparr>"
proof -
  let ?c = "\<lparr>products = [], last_updated = Some (0::int), by_platform = []\<rparr>"
  have h: "last_updated ?c = Some 0" "timedelta_seconds (5000000 - 0) < CACHE_DURATION"
    "products ?c = []"
    by (simp_all add: timedelta_seconds_def CACHE_DURATION_def)
  let ?fail = "\<lambda>pf::string. (Inl (RaisedException ''timeout'') :: py_error + listing list)"
  have u: "?c\<lparr>last_updated := None\<rparr> = \<lparr>products = [], last_updated = None, by_platform = []\<rparr>"
    by simp
  have "get_cached_data 5000000 ?c = Some [] \<and>
        source (fst (get_products ?fail 5000000 ?c)) = ''fresh_scrape'' \<and>
        get_best_deals ?fail 5000000 ?c = get_best_deals ?fail 5000000 (?c\<lparr>last_updated := None\<rparr>)"
    using empty_fresh_snapshot_rescrapes [OF h, of ?fail] by blast
  then show ?thesis using h(2) unfolding u by blast
qed

section \<open>Consolidation\<close>






















section \<open>Best deals\<close>







lemma round_half_even_int: "round_half_even (of_int k) = k"
  by (simp add: round_half_even_def)

lemma py_round_fixed: "py_round (of_int k / 10 ^ n) n = of_int k / 10 ^ n"
  by (simp add: py_round_def round_half_even_int)

lemma py_round_idem: "py_round (py_round x n) n = py_round x n"
  unfolding py_round_def [of x] by (rule py_round_fixed)








lemma get_best_deals_cached:
  "get_cached_data now c = Some ps \<Longrightarrow> ps \<noteq> [] \<Longrightarrow>
   get_best_deals scrape now c = (best_deals_of ps, c)"
  by (simp add: get_best_deals_def falsy_def)



section \<open>The scrapers\<close>


lemma extract_price_no_raise: "extract_price t \<noteq> Inl e"
  using extract_price_returns [of t] by auto

lemma scrape_containers_eq:
  "scrape_containers extract cs found = found @ List.map_filter (keep_product extract) cs"
  by (induction cs arbitrary: found)
    (auto simp: List.map_filter_simps keep_product_def split: sum.splits option.splits)





lemma apply_discount_keeps: "is_flash_sale fi \<Longrightarrow> apply_discount th p orig fi = fi"
  by (simp add: apply_discount_def)














lemma length_map_filter: "length (List.map_filter f xs) = length (filter (\<lambda>x. f x \<noteq> None) xs)"
  by (induction xs) (auto simp: List.map_filter_simps split: option.splits)

lemma length_map_filter_le: "length (List.map_filter f xs) \<le> length xs"
  by (simp add: length_map_filter)

lemma scrape_page_rendered:
  "0 \<le> m \<Longrightarrow>
   scrape_page extract containers_of (Rendered soup) m =
     Inr (List.map_filter (keep_product extract) (take (nat m) (containers_of soup m)))"
  by (simp add: scrape_page_def scrape_containers_eq slice_to_def)

lemma keep_simple: "keep_product (simple_extract s rt) c \<noteq> None \<longleftrightarrow> first_match c (name_css s) \<noteq> None"
  unfolding keep_product_def simple_extract_def
  by (auto split: option.splits sum.splits simp: extract_price_no_raise)

lemma keep_shopee:
  "keep_product (shopee_extract_product_with_flash_sale rt) c \<noteq> None \<longleftrightarrow> shopee_name_of c \<noteq> None"
  unfolding keep_product_def shopee_extract_product_with_flash_sale_def Let_def
  by (auto split: option.splits sum.splits simp: extract_price_no_raise)

lemma keep_lazada:
  "keep_product (lazada_extract_product_with_flash_sale rt) c \<noteq> None \<longleftrightarrow> lazada_name_of c \<noteq> None"
  unfolding keep_product_def lazada_extract_product_with_flash_sale_def Let_def
  by (auto split: option.splits sum.splits simp: extract_price_no_raise)

subsection \<open>The example pages\<close>

lemma price_590: "extract_price (Some ''$5.90'') = Inr (59 / 10)"
  by (simp add: extract_price_def strip_price_text_def remove_char_def re_match_at_def
        is_digit_def py_float_def digits_value_def digit_val_def fraction_value_def)
lemma price_790: "extract_price (Some ''$7.90'') = Inr (79 / 10)"
  by (simp add: extract_price_def strip_price_text_def remove_char_def re_match_at_def
        is_digit_def py_float_def digits_value_def digit_val_def fraction_value_def)

lemma cat_uht: "categorize_milo_product ''Milo UHT 200ml'' = ''uht''"
  by (simp add: categorize_milo_product_def lower_def lower_char_def any_word_in_def uht_words_def)

lemma ex_fp_extract:
  "simple_extract FairPriceScraper ex_rt ex_fp_container = Inr (Some ex_fp_listing)"
  by (simp add: simple_extract_def FairPriceScraper_def ex_fp_container_def select_one_def
      or_else_def ex_elem_def price_590 price_790 cat_uht ex_fp_listing_def ex_rt_def
      product_url_of_def)

lemma ex_nameless_extract:
  "simple_extract FairPriceScraper ex_rt ex_nameless_container = Inr None"
  by (simp add: simple_extract_def FairPriceScraper_def ex_nameless_container_def select_one_def
      or_else_def)

lemma ex_fp_containers:
  "simple_containers FairPriceScraper ex_fp_soup 2 =
     [ex_nameless_container, ex_fp_container, ex_fp_container]"
  by (simp add: simple_containers_def FairPriceScraper_def ex_fp_soup_def or_list_def)

lemma ex_fp_scrape:
  "simple_scrape FairPriceScraper ex_rt (Rendered ex_fp_soup) 2 = Inr [ex_fp_listing]"
  by (simp add: simple_scrape_def scrape_page_def ex_fp_containers slice_to_def
      ex_fp_extract ex_nameless_extract)










subsection \<open>Claims about the listings\<close>







text \<open>
  C6. For a count \<open>m\<close> of results that is not negative, a scraper looks at the first
  \<open>m\<close> candidate containers only and returns the listings of those among them that
  have a name, in their order: a container without a name gives no listing, does not end
  the loop, raises nothing (the scraper returns), and is not replaced by a later
  container, so the number of listings is the number of named containers among the
  first \<open>m\<close> and at most \<open>m\<close>. This holds for the FairPrice, Sheng Siong and Giant
  scrapers (any \<open>s\<close>), for Shopee and for Lazada.
\<close>

theorem skipped_containers_consume_slots:
  assumes "0 \<le> m"
  shows
   "simple_scrape s rt (Rendered soup) m =
      Inr (List.map_filter (keep_product (simple_extract s rt))
             (take (nat m) (simple_containers s soup m))) \<and>
    length (List.map_filter (keep_product (simple_extract s rt))
             (take (nat m) (simple_containers s soup m))) =
      length (filter (\<lambda>c. first_match c (name_css s) \<noteq> None)
                (take (nat m) (simple_containers s soup m))) \<and>
    shopee_scrape rt (Rendered soup) m =
      Inr (List.map_filter (keep_product (shopee_extract_product_with_flash_sale rt))
             (take (nat m) (shopee_containers soup m))) \<and>
    length (List.map_filter (keep_product (shopee_extract_product_with_flash_sale rt))
             (take (nat m) (shopee_containers soup m))) =
      length (filter (\<lambda>c. shopee_name_of c \<noteq> None) (take (nat m) (shopee_containers soup m))) \<and>
    lazada_scrape rt (Rendered soup) m =
      Inr (List.map_filter (keep_product (lazada_extract_product_with_flash_sale rt))
             (take (nat m) (lazada_containers soup m))) \<and>
    length (List.map_filter (keep_product (lazada_extract_product_with_flash_sale rt))
             (take (nat m) (lazada_containers soup m))) =
      length (filter (\<lambda>c. lazada_name_of c \<noteq> None) (take (nat m) (lazada_containers soup m))) \<and>
    (\<forall>ls. simple_scrape s rt (Rendered soup) m = Inr ls \<or>
          shopee_scrape rt (Rendered soup) m = Inr ls \<or>
          lazada_scrape rt (Rendered soup) m = Inr ls \<longrightarrow> length ls \<le> nat m)"
proof -
  have a: "simple_scrape s rt (Rendered soup) m =
      Inr (List.map_filter (keep_product (simple_extract s rt))
             (take (nat m) (simple_containers s soup m)))"
    unfolding simple_scrape_def by (rule scrape_page_rendered [OF assms])
  have b: "shopee_scrape rt (Rendered soup) m =
      Inr (List.map_filter (keep_product (shopee_extract_product_with_flash_sale rt))
             (take (nat m) (shopee_containers soup m)))"
    unfolding shopee_scrape_def by (rule scrape_page_rendered [OF assms])
  have c: "lazada_scrape rt (Rendered soup) m =
      Inr (List.map_filter (keep_product (lazada_extract_product_with_flash_sale rt))
             (take (nat m) (lazada_containers soup m)))"
    unfolding lazada_scrape_def by (rule scrape_page_rendered [OF assms])
  have le: "length (List.map_filter f (take (nat m) xs)) \<le> nat m"
    for f :: "container \<Rightarrow> listing option" and xs
    using length_map_filter_le [of f "take (nat m) xs"] by simp
  have d: "\<forall>ls. simple_scrape s rt (Rendered soup) m = Inr ls \<or>
          shopee_scrape rt (Rendered soup) m = Inr ls \<or>
          lazada_scrape rt (Rendered soup) m = Inr ls \<longrightarrow> length ls \<le> nat m"
    unfolding a b c using le by auto
  show ?thesis
    using a b c d by (simp only: length_map_filter keep_simple keep_shopee keep_lazada)
qed

theorem skipped_containers_consume_slots_witness:
  "(0::int) \<le> 2 \<and>
   simple_containers FairPriceScraper ex_fp_soup 2 =
     [ex_nameless_container, ex_fp_container, ex_fp_container] \<and>
   first_match ex_nameless_container (name_css FairPriceScraper) = None \<and>
   first_match ex_fp_container (name_css FairPriceScraper) \<noteq> None \<and>
   simple_scrape FairPriceScraper ex_rt (Rendered ex_fp_soup) 2 = Inr [ex_fp_listing] \<and>
   length (filter (\<lambda>c. first_match c (name_css FairPriceScraper) \<noteq> None)
             (take (nat 2) (simple_containers FairPriceScraper ex_fp_soup 2))) = 1"
proof -
  have n: "first_match ex_nameless_container (name_css FairPriceScraper) = None"
    by (simp add: FairPriceScraper_def ex_nameless_container_def select_one_def or_else_def)
  have f: "first_match ex_fp_container (name_css FairPriceScraper) \<noteq> None"
    by (simp add: FairPriceScraper_def ex_fp_container_def select_one_def or_else_def)
  have "length (List.map_filter (keep_product (simple_extract FairPriceScraper ex_rt))
             (take (nat 2) (simple_containers FairPriceScraper ex_fp_soup 2))) =
      length (filter (\<lambda>c. first_match c (name_css FairPriceScraper) \<noteq> None)
                (take (nat 2) (simple_containers FairPriceScraper ex_fp_soup 2)))"
    using skipped_containers_consume_slots [of 2 FairPriceScraper ex_rt ex_fp_soup] by simp
  moreover have "List.map_filter (keep_product (simple_extract FairPriceScraper ex_rt))
             (take (nat 2) (simple_containers FairPriceScraper ex_fp_soup 2)) = [ex_fp_listing]"
    using skipped_containers_consume_slots [of 2 FairPriceScraper ex_rt ex_fp_soup] ex_fp_scrape
    by simp
  ultimately have "length (filter (\<lambda>c. first_match c (name_css FairPriceScraper) \<noteq> None)
             (take (nat 2) (simple_containers FairPriceScraper ex_fp_soup 2))) = 1"
    by simp
  then show ?thesis using n f ex_fp_containers ex_fp_scrape by simp
qed

end
